theory Spec2Isabelle
  imports Main "HOL-Library.Word"
begin

section \<open>Values shared by the source files\<close>

type_synonym bytes = "8 word list"

text \<open>
  A content identifier (\<^verbatim>\<open>cid.Cid\<close>). \<open>Undef\<close> is the zero value of the Go type.
\<close>

datatype cid = Undef | Cid bytes

text \<open>
  Go errors. \<open>Errorf msg cause\<close> is the value of \<^verbatim>\<open>fmt.Errorf\<close>: the constant
  part of the format string and the error wrapped by \<^verbatim>\<open>%w\<close>, if one is wrapped.
  \<open>External\<close> is an error made by a collaborator outside the modelled files.
  A nil error is \<open>None :: error option\<close>.
\<close>

datatype error = External string | Errorf string "error option"

text \<open>
  A call either returns its Go results or panics (index out of range, nil
  pointer dereference).
\<close>

datatype 'a outcome = Returns 'a | Panics string


section \<open>Collaborators of the extraction (cmd/tvx)\<close>

text \<open>
  \<^verbatim>\<open>abi.ChainEpoch\<close> is an \<^verbatim>\<open>int64\<close>; its \<^verbatim>\<open>String\<close> method prints the signed
  value in decimal.
\<close>

type_synonym ChainEpoch = "64 word"

definition digit :: "nat \<Rightarrow> char" where
  "digit d = ''0123456789'' ! d"

fun decimal :: "nat \<Rightarrow> string" where
  "decimal n = (if n < 10 then [digit n] else decimal (n div 10) @ [digit (n mod 10)])"

declare decimal.simps [simp del]

definition FormatInt :: "int \<Rightarrow> string" where
  "FormatInt i = (if i < 0 then CHR ''-'' # decimal (nat (- i)) else decimal (nat i))"

definition ChainEpoch_String :: "ChainEpoch \<Rightarrow> string" where
  "ChainEpoch_String e = FormatInt (sint e)"

type_synonym TipSetKey = "cid list"

text \<open>
  \<^verbatim>\<open>types.BlockHeader\<close> and \<^verbatim>\<open>types.TipSet\<close> are declared outside the modelled
  files. A header carries the fields the source reads
  (\<^verbatim>\<open>ParentBaseFee\<close> wraps a pointer, dereferenced by \<^verbatim>\<open>*basefee.Int\<close>: \<open>None\<close> is
  nil); a tipset is given by what each accessor method called in the source
  returns.
\<close>

record BlockHeader =
  Cid_of :: cid
  Miner :: string
  WinCount :: "64 word"
  ParentBaseFee :: "int option"

record TipSet =
  Key :: TipSetKey
  Height :: ChainEpoch
  Parents :: TipSetKey
  ParentState :: cid
  Blocks :: "BlockHeader list"

datatype Message = Message nat

record SignedMessage =
  Message_of :: Message
  Signature :: bytes

record BlockMessages =
  BlsMessages :: "Message list"
  SecpkMessages :: "SignedMessage list"
  Cids :: "cid list"

subsection \<open>The vector schema (package schema of test-vectors)\<close>

record schema_Block =
  MinerAddr :: string
  blk_WinCount :: "64 word"
  Messages :: "bytes list"

record schema_Tipset =
  BaseFee :: int
  tipset_Blocks :: "schema_Block list"

record GenerationData =
  Source :: string
  gen_Version :: string

record Metadata =
  ID :: string
  Gen :: "GenerationData list"

record Variant =
  variant_ID :: string
  Epoch :: "64 word"
  NetworkVersion :: nat

record StateTree =
  RootCID :: cid

record Preconditions =
  Variants :: "Variant list"
  pre_BaseFee :: "int option"
  pre_StateTree :: "StateTree option"

record Receipt =
  ExitCode :: "64 word"
  ReturnValue :: bytes
  GasUsed :: "64 word"

record Postconditions =
  post_StateTree :: "StateTree option"
  ReceiptsRoots :: "cid list"
  Receipts :: "Receipt list"

record RandomnessMatch =
  On :: string
  Return :: bytes

text \<open>
  \<^verbatim>\<open>Meta\<close>, \<^verbatim>\<open>Pre\<close> and \<^verbatim>\<open>Post\<close> are pointers (the source fills them with
  \<^verbatim>\<open>&schema.Metadata{...}\<close> and so on): \<open>None\<close> is nil, which is what decoding
  leaves when the key is absent.
\<close>

record TestVector =
  Class :: string
  Meta :: "Metadata option"
  Selector :: "(string \<times> string) list"
  Randomness :: "RandomnessMatch list"
  CAR :: bytes
  Pre :: "Preconditions option"
  ApplyTipsets :: "schema_Tipset list"
  Post :: "Postconditions option"

subsection \<open>The execution engine (package conformance)\<close>

record ExecuteTipsetParams =
  Preroot :: cid
  ParentEpoch :: ChainEpoch
  Tipset :: schema_Tipset
  ExecEpoch :: ChainEpoch

record ApplyRet =
  ret_ExitCode :: "64 word"
  ret_Return :: bytes
  ret_GasUsed :: "64 word"

record ExecuteTipsetResult =
  ReceiptsRoot :: cid
  PostStateRoot :: cid
  AppliedResults :: "ApplyRet list"

subsection \<open>The environment\<close>

datatype stat = NotExist | Exists bool | StatFailed error

text \<open>
  Everything the extraction calls and that is not in the modelled files: the
  full-node API, the serializer, the engine with the objects it reads from the
  blockstore and the randomness it draws, the archive writer of the surgeon,
  the compressor, the file system and the path library. A call that returns
  \<^verbatim>\<open>(value, error)\<close> and whose value is dropped on error is a sum;
  \<open>WriteCARIncluding\<close> gives the bytes it wrote to the writer and its error.
\<close>

record env =
  ParseTipSetRef :: "string \<Rightarrow> error + TipSet"
  ChainGetTipSet :: "TipSetKey \<Rightarrow> error + TipSet"
  ChainGetBlockMessages :: "cid \<Rightarrow> error + BlockMessages"
  StateNetworkVersion :: "TipSetKey \<Rightarrow> error + nat"
  Version :: "error + string"
  StateNetworkName :: "error + string"
  Serialize :: "Message \<Rightarrow> error + bytes"
  ExecuteTipset :: "ExecuteTipsetParams \<Rightarrow> error + ExecuteTipsetResult"
  engine_reads :: "ExecuteTipsetParams \<Rightarrow> cid list"
  Recorded :: "ExecuteTipsetParams \<Rightarrow> RandomnessMatch list"
  is_TracingBlockstore :: bool
  WriteCARIncluding :: "cid set \<Rightarrow> cid list \<Rightarrow> bytes \<times> error option"
  deflate :: "bytes \<Rightarrow> bytes"
  gzip_trailer :: bytes
  Flush_err :: "error option"
  Close_err :: "error option"
  GetProtocolCodename :: "ChainEpoch \<Rightarrow> string"
  TipSetKey_String :: "TipSetKey \<Rightarrow> string"
  SelectorMinProtocolVersion :: string
  ClassTipset :: string
  writeVector_err :: "TestVector \<Rightarrow> string \<Rightarrow> error option"
  os_Stat :: "string \<Rightarrow> stat"
  os_MkdirAll_err :: "string \<Rightarrow> error option"
  filepath_Join :: "string \<Rightarrow> string \<Rightarrow> string"

text \<open>
  What the extraction leaves on disk: the vectors persisted, in the order of
  the writes, and the directories created.
\<close>

record fsys =
  vectors :: "(string \<times> TestVector) list"
  dirs :: "string list"

text \<open>
  Modelled from the spec: \<^verbatim>\<open>writeVector\<close> is not in the modelled files; it persists
  the vector to the target path or fails.
\<close>

definition writeVector :: "env \<Rightarrow> TestVector \<Rightarrow> string \<Rightarrow> fsys \<Rightarrow> error option \<times> fsys" where
  "writeVector E vector path fs =
    (case writeVector_err E vector path of
      Some e \<Rightarrow> (Some e, fs)
    | None \<Rightarrow> (None, fs\<lparr>vectors := vectors fs @ [(path, vector)]\<rparr>))"

text \<open>
  Modelled from the spec: the tracing blockstore is not in the modelled files.
  \<^verbatim>\<open>StartTracing\<close> resets the recorded set and begins interception, a get
  records the identifier while tracing is on, \<^verbatim>\<open>FinishTracing\<close> stops
  interception and returns the accumulated set.
\<close>

record TracingBlockstore =
  tracing :: bool
  traced :: "cid set"

definition StartTracing :: "TracingBlockstore \<Rightarrow> TracingBlockstore" where
  "StartTracing tbs = tbs\<lparr>tracing := True, traced := {}\<rparr>"

definition tbs_Get :: "cid \<Rightarrow> TracingBlockstore \<Rightarrow> TracingBlockstore" where
  "tbs_Get c tbs = (if tracing tbs then tbs\<lparr>traced := insert c (traced tbs)\<rparr> else tbs)"

definition FinishTracing :: "TracingBlockstore \<Rightarrow> cid set \<times> TracingBlockstore" where
  "FinishTracing tbs = (traced tbs, tbs\<lparr>tracing := False, traced := {}\<rparr>)"

text \<open>
  The writer of \<^verbatim>\<open>compress/gzip\<close> over a byte buffer, as far as the source uses
  it: \<open>out\<close> is the underlying buffer, \<open>pending\<close> the data accepted and not yet
  delivered to it. \<^verbatim>\<open>Flush\<close> delivers the pending data compressed; \<^verbatim>\<open>Close\<close>
  delivers what is pending and the trailer.
\<close>

record gzip_Writer =
  out :: bytes
  pending :: bytes
  closed :: bool

definition gzip_NewWriter :: "bytes \<Rightarrow> gzip_Writer" where
  "gzip_NewWriter buf = \<lparr>out = buf, pending = [], closed = False\<rparr>"

definition gzip_Write :: "bytes \<Rightarrow> gzip_Writer \<Rightarrow> gzip_Writer" where
  "gzip_Write data gw = gw\<lparr>pending := pending gw @ data\<rparr>"

definition gzip_Flush :: "env \<Rightarrow> gzip_Writer \<Rightarrow> error option \<times> gzip_Writer" where
  "gzip_Flush E gw =
    (case Flush_err E of
      Some e \<Rightarrow> (Some e, gw)
    | None \<Rightarrow> (None, gw\<lparr>out := out gw @ deflate E (pending gw), pending := []\<rparr>))"

definition gzip_Close :: "env \<Rightarrow> gzip_Writer \<Rightarrow> error option \<times> gzip_Writer" where
  "gzip_Close E gw =
    (case Close_err E of
      Some e \<Rightarrow> (Some e, gw)
    | None \<Rightarrow>
        (None, gw\<lparr>out := out gw @ deflate E (pending gw) @ gzip_trailer E,
                   pending := [], closed := True\<rparr>))"


section \<open>Tipset extraction (cmd/tvx, the file of doExtractTipset)\<close>

text \<open>
  Log lines of the extraction are not modelled: they go to the process log and
  no function reads them.
\<close>

subsection \<open>extractTipset\<close>

text \<open>The two inner loops of lines 105 to 118: the first failure ends the function.\<close>

fun serialize_all :: "env \<Rightarrow> Message list \<Rightarrow> error + bytes list" where
  "serialize_all E [] = Inr []"
| "serialize_all E (m # ms) =
    (case Serialize E m of
      Inl err \<Rightarrow> Inl (Errorf ''failed to serialize message'' (Some err))
    | Inr b \<Rightarrow>
        (case serialize_all E ms of
          Inl e \<Rightarrow> Inl e
        | Inr bs \<Rightarrow> Inr (b # bs)))"

text \<open>
  The loop over the blocks, lines 96 to 124. The BLS messages are packed
  before the secp messages, of which the inner message is serialized.
\<close>

fun pack_blocks :: "env \<Rightarrow> BlockHeader list \<Rightarrow> error + schema_Block list" where
  "pack_blocks E [] = Inr []"
| "pack_blocks E (b # bs) =
    (case ChainGetBlockMessages E (Cid_of b) of
      Inl err \<Rightarrow> Inl (Errorf ''failed to get block messages'' (Some err))
    | Inr msgs \<Rightarrow>
        (case serialize_all E (BlsMessages msgs) of
          Inl e \<Rightarrow> Inl e
        | Inr bls \<Rightarrow>
            (case serialize_all E (map Message_of (SecpkMessages msgs)) of
              Inl e \<Rightarrow> Inl e
            | Inr secp \<Rightarrow>
                (case pack_blocks E bs of
                  Inl e \<Rightarrow> Inl e
                | Inr blocks \<Rightarrow>
                    Inr (\<lparr>MinerAddr = Miner b, blk_WinCount = WinCount b,
                          Messages = bls @ secp\<rparr> # blocks)))))"

text \<open>
  Lines 174 to 187: the archive is written into a gzip writer over a new
  buffer, then the writer is flushed and closed; each of the three steps
  returns on its error.
\<close>

definition write_archive :: "env \<Rightarrow> cid set \<Rightarrow> cid list \<Rightarrow> error option \<times> gzip_Writer" where
  "write_archive E accessed roots =
    (case WriteCARIncluding E accessed roots of (car, err) \<Rightarrow>
      let gw = gzip_Write car (gzip_NewWriter []) in
      if err \<noteq> None then (err, gw)
      else (case gzip_Flush E gw of (err, gw) \<Rightarrow>
        if err \<noteq> None then (err, gw)
        else gzip_Close E gw))"

text \<open>Lines 237 to 243: one receipt for each applied result, in order.\<close>

definition receipts_of :: "ApplyRet list \<Rightarrow> Receipt list" where
  "receipts_of rs =
    map (\<lambda>res. \<lparr>ExitCode = ret_ExitCode res, ReturnValue = ret_Return res,
                GasUsed = ret_GasUsed res\<rparr>) rs"

text \<open>
  Lines 93 to 243 of \<^verbatim>\<open>extractTipset\<close>: everything before the vector is written.
  The result is the assembled vector, or how the function ends early: with a
  returned error, or with the panic of \<^verbatim>\<open>ts.Blocks()[0]\<close> on a tipset without
  blocks or of \<^verbatim>\<open>*basefee.Int\<close> on a nil base fee.
\<close>

definition assemble_vector :: "env \<Rightarrow> TipSet \<Rightarrow> error option outcome + TestVector" where
  "assemble_vector E ts =
    (case pack_blocks E (Blocks ts) of
      Inl e \<Rightarrow> Inl (Returns (Some e))
    | Inr blocks \<Rightarrow>
    (case Blocks ts of
      [] \<Rightarrow> Inl (Panics ''index out of range'')
    | b0 # _ \<Rightarrow>
    (case ParentBaseFee b0 of
      None \<Rightarrow> Inl (Panics ''nil pointer dereference'')
    | Some basefee \<Rightarrow>
    let tipset = \<lparr>BaseFee = basefee, tipset_Blocks = blocks\<rparr> in
    if \<not> is_TracingBlockstore E
    then Inl (Returns (Some (Errorf
      ''requested accessed-cids state retention, but no tracing blockstore was present'' None)))
    else
    let tbs = StartTracing \<lparr>tracing = False, traced = {}\<rparr>;
        params = \<lparr>Preroot = ParentState ts, ParentEpoch = Height ts - 1,
                  Tipset = tipset, ExecEpoch = Height ts\<rparr> in
    (case ExecuteTipset E params of
      Inl err \<Rightarrow> Inl (Returns (Some (Errorf ''failed to execute tipset'' (Some err))))
    | Inr result \<Rightarrow>
    (case FinishTracing (fold tbs_Get (engine_reads E params) tbs) of (accessed, _) \<Rightarrow>
    (case write_archive E accessed [ParentState ts, PostStateRoot result] of
      (Some err, _) \<Rightarrow> Inl (Returns (Some err))
    | (None, gw) \<Rightarrow>
    let codename = GetProtocolCodename E (Height ts) in
    (case StateNetworkVersion E (Key ts) of
      Inl err \<Rightarrow> Inl (Returns (Some err))
    | Inr nv \<Rightarrow>
    (case Version E of
      Inl err \<Rightarrow> Inl (Returns (Some err))
    | Inr version \<Rightarrow>
    (case StateNetworkName E of
      Inl err \<Rightarrow> Inl (Returns (Some err))
    | Inr ntwkName \<Rightarrow>
    Inr \<lparr>Class = ClassTipset E,
         Meta = Some \<lparr>ID = ''@'' @ ChainEpoch_String (Height ts),
           Gen = [\<lparr>Source = ''network:'' @ ntwkName, gen_Version = []\<rparr>,
                  \<lparr>Source = ''tipset:'' @ TipSetKey_String E (Key ts), gen_Version = []\<rparr>,
                  \<lparr>Source = ''github.com/filecoin-project/lotus'', gen_Version = version\<rparr>]\<rparr>,
         Selector = [(SelectorMinProtocolVersion E, codename)],
         Randomness = Recorded E params,
         CAR = out gw,
         Pre = Some \<lparr>Variants = [\<lparr>variant_ID = codename, Epoch = Height ts, NetworkVersion = nv\<rparr>],
           pre_BaseFee = Some basefee,
           pre_StateTree = Some \<lparr>RootCID = ParentState ts\<rparr>\<rparr>,
         ApplyTipsets = [tipset],
         Post = Some \<lparr>post_StateTree = Some \<lparr>RootCID = PostStateRoot result\<rparr>,
           ReceiptsRoots = [ReceiptsRoot result],
           Receipts = receipts_of (AppliedResults result)\<rparr>\<rparr>)))))))))"

text \<open>\<^verbatim>\<open>extractTipset\<close>: the vector is assembled, then written to the path (line 245).\<close>

definition extractTipset ::
  "env \<Rightarrow> TipSet \<Rightarrow> string \<Rightarrow> fsys \<Rightarrow> error option outcome \<times> fsys" where
  "extractTipset E ts path fs =
    (case assemble_vector E ts of
      Inl early \<Rightarrow> (early, fs)
    | Inr vector \<Rightarrow>
        (case writeVector E vector path fs of (err, fs') \<Rightarrow> (Returns err, fs')))"

subsection \<open>extractTipsetRange\<close>

text \<open>
  The loop of \<^verbatim>\<open>extractTipsetRange\<close>, with \<^verbatim>\<open>curr\<close> as the argument \<open>cursor\<close>,
  which changes; the function is called with \<^verbatim>\<open>right\<close> for it. The loop ends
  only when the key of the cursor is the key of \<^verbatim>\<open>left\<close>, so a walk that never
  meets \<^verbatim>\<open>left\<close> and never fails has the value \<open>None\<close>.
  The error of line 80 wraps nothing: its format has three verbs and two
  operands, and \<^verbatim>\<open>%w\<close> is the one left without. The message of line 84 is
  formatted from \<^verbatim>\<open>curr\<close> after the failed call has reassigned it; the model
  keeps only that the function returns there, wrapping the error of the call.
\<close>

partial_function (option) extractTipsetRange ::
  "env \<Rightarrow> TipSet \<Rightarrow> TipSet \<Rightarrow> string \<Rightarrow> fsys \<Rightarrow> (error option outcome \<times> fsys) option" where
  "extractTipsetRange E left cursor dir fs =
    (if Key cursor \<noteq> Key left then
      (case extractTipset E cursor
              (filepath_Join E dir (''epoch-'' @ ChainEpoch_String (Height cursor))) fs of
        (Panics p, fs') \<Rightarrow> Some (Panics p, fs')
      | (Returns (Some err), fs') \<Rightarrow>
          Some (Returns (Some (Errorf ''failed to extract tipset'' None)), fs')
      | (Returns None, fs') \<Rightarrow>
          (case ChainGetTipSet E (Parents cursor) of
            Inl err \<Rightarrow> Some (Returns (Some (Errorf ''failed to get tipset'' (Some err))), fs')
          | Inr parent \<Rightarrow> extractTipsetRange E left parent dir fs'))
    else
      Some (extractTipset E cursor
              (filepath_Join E dir (''epoch-'' @ ChainEpoch_String (Height cursor) @ ''.json'')) fs))"

subsection \<open>doExtractTipset\<close>







section \<open>Replay (cmd/tvx/exec.go)\<close>

text \<open>
  The lines written through the package \<^verbatim>\<open>log\<close>, by what they report rather
  than by their text. \<open>Reported\<close> is a line that an execution path logs through
  the reporter.
\<close>

datatype log_line =
    Executing string
  | VariantFailed string
  | VariantSucceeded string
  | Processing string string
  | Reported string

text \<open>
  \<^verbatim>\<open>conformance.LogReporter\<close>, by the flag that \<^verbatim>\<open>Failed\<close> reads;
  \<^verbatim>\<open>new(conformance.LogReporter)\<close> has it unset.
\<close>

record Reporter =
  failed :: bool

text \<open>The calls of the two execution paths of the package \<^verbatim>\<open>conformance\<close>.\<close>

datatype path_call = MessageVector TestVector Variant | TipsetVector TestVector Variant

text \<open>
  The state of the replay: the file the log is copied to besides the standard
  error stream (\<open>None\<close> when \<^verbatim>\<open>log.SetOutput(os.Stderr)\<close> is in force), the lines
  on the standard error stream, the lines of the files created in the output
  directory, and the calls made to the execution paths, in order.
\<close>

record exec_state =
  log_output :: "string option"
  stderr :: "log_line list"
  outfiles :: "string \<rightharpoonup> log_line list"
  calls :: "path_call list"

text \<open>
  What the replay calls outside the file. An execution path is given the
  reporter, the vector and the variant; it returns the Go pair of error and
  diffs, the reporter as it leaves it, and the texts it logs through the
  reporter.
\<close>

record exec_env =
  ExecuteMessageVector ::
    "Reporter \<Rightarrow> TestVector \<Rightarrow> Variant \<Rightarrow> (error option \<times> string list) \<times> Reporter \<times> string list"
  ExecuteTipsetVector ::
    "Reporter \<Rightarrow> TestVector \<Rightarrow> Variant \<Rightarrow> (error option \<times> string list) \<times> Reporter \<times> string list"
  filepath_Glob :: "string \<Rightarrow> error + string list"
  os_Create_err :: "string \<Rightarrow> error option"
  os_Open :: "string \<Rightarrow> error + bytes"
  json_Decode :: "bytes \<Rightarrow> error + TestVector"
  Join :: "string \<Rightarrow> string \<Rightarrow> string"

definition log_Println :: "log_line \<Rightarrow> exec_state \<Rightarrow> exec_state" where
  "log_Println l s =
    (case log_output s of
      None \<Rightarrow> s\<lparr>stderr := stderr s @ [l]\<rparr>
    | Some p \<Rightarrow>
        s\<lparr>stderr := stderr s @ [l],
          outfiles := (outfiles s)(p \<mapsto> (case outfiles s p of None \<Rightarrow> [l] | Some ls \<Rightarrow> ls @ [l]))\<rparr>)"

subsection \<open>executeTestVector\<close>

text \<open>
  The switch of lines 143 to 150 for one variant: the call of the execution
  path of the class, or \<open>None\<close> in the default case.
\<close>

definition execute_variant ::
  "exec_env \<Rightarrow> Reporter \<Rightarrow> TestVector \<Rightarrow> Variant \<Rightarrow>
   (path_call \<times> (error option \<times> string list) \<times> Reporter \<times> string list) option" where
  "execute_variant X r tv v =
    (if Class tv = ''message'' then Some (MessageVector tv v, ExecuteMessageVector X r tv v)
     else if Class tv = ''tipset'' then Some (TipsetVector tv v, ExecuteTipsetVector X r tv v)
     else None)"

text \<open>
  The loop of lines 142 to 157. The named results \<^verbatim>\<open>err\<close> and \<^verbatim>\<open>diffs\<close> are the
  pair that each iteration assigns; a nil slice is the empty list. The default
  case of the switch returns from the function.
\<close>

fun variants_loop ::
  "exec_env \<Rightarrow> TestVector \<Rightarrow> Variant list \<Rightarrow> error option \<times> string list \<Rightarrow> Reporter \<Rightarrow>
   exec_state \<Rightarrow> (error option \<times> string list) \<times> Reporter \<times> exec_state" where
  "variants_loop X tv [] res r s = (res, r, s)"
| "variants_loop X tv (v # vs) res r s =
    (case execute_variant X r tv v of
      None \<Rightarrow> ((Some (Errorf ''test vector class not supported'' None), []), r, s)
    | Some (c, res', r', ls) \<Rightarrow>
        let s1 = fold log_Println (map Reported ls) (s\<lparr>calls := calls s @ [c]\<rparr>);
            s2 = log_Println (if failed r' then VariantFailed (variant_ID v)
                              else VariantSucceeded (variant_ID v)) s1
        in variants_loop X tv vs res' r' s2)"

text \<open>
  \<^verbatim>\<open>executeTestVector\<close>. Line 140 reads \<^verbatim>\<open>tv.Meta.ID\<close> and line 142
  \<^verbatim>\<open>tv.Pre.Variants\<close>: each panics on a nil pointer.
\<close>

definition executeTestVector ::
  "exec_env \<Rightarrow> Reporter \<Rightarrow> TestVector \<Rightarrow> exec_state \<Rightarrow>
   (error option \<times> string list) outcome \<times> Reporter \<times> exec_state" where
  "executeTestVector X r tv s =
    (case Meta tv of
      None \<Rightarrow> (Panics ''nil pointer dereference'', r, s)
    | Some meta \<Rightarrow>
        let s1 = log_Println (Executing (ID meta)) s in
        (case Pre tv of
          None \<Rightarrow> (Panics ''nil pointer dereference'', r, s1)
        | Some pre \<Rightarrow>
            (case variants_loop X tv (Variants pre) (None, []) r s1 of
              (res, r', s') \<Rightarrow> (Returns res, r', s'))))"

subsection \<open>execVectorFile\<close>

definition execVectorFile ::
  "exec_env \<Rightarrow> Reporter \<Rightarrow> string \<Rightarrow> exec_state \<Rightarrow>
   (error option \<times> string list) outcome \<times> Reporter \<times> exec_state" where
  "execVectorFile X r path s =
    (case os_Open X path of
      Inl err \<Rightarrow> (Returns (Some (Errorf ''failed to open test vector'' (Some err)), []), r, s)
    | Inr content \<Rightarrow>
        (case json_Decode X content of
          Inl err \<Rightarrow> (Returns (Some (Errorf ''failed to decode test vector'' (Some err)), []), r, s)
        | Inr tv \<Rightarrow> executeTestVector X r tv s))"

subsection \<open>execVectorDir\<close>

text \<open>
  \<^verbatim>\<open>strings.TrimSuffix\<close>, and \<^verbatim>\<open>filepath.Ext\<close> and \<^verbatim>\<open>filepath.Base\<close> for the
  separator \<^verbatim>\<open>/\<close>: the extension starts at the last dot of the last element
  of the path; the base is the last element once trailing separators are
  removed, \<^verbatim>\<open>.\<close> for the empty path and \<^verbatim>\<open>/\<close> for a path of separators only.
\<close>

definition strings_TrimSuffix :: "string \<Rightarrow> string \<Rightarrow> string" where
  "strings_TrimSuffix s suffix =
    (if length suffix \<le> length s \<and> drop (length s - length suffix) s = suffix
     then take (length s - length suffix) s else s)"

definition last_element :: "string \<Rightarrow> string" where
  "last_element path = rev (takeWhile (\<lambda>c. c \<noteq> CHR ''/'') (rev path))"

definition filepath_Ext :: "string \<Rightarrow> string" where
  "filepath_Ext path =
    (let name = last_element path in
     if CHR ''.'' \<in> set name
     then CHR ''.'' # rev (takeWhile (\<lambda>c. c \<noteq> CHR ''.'') (rev name)) else [])"

definition filepath_Base :: "string \<Rightarrow> string" where
  "filepath_Base path =
    (if path = [] then ''.''
     else let name = last_element (rev (dropWhile (\<lambda>c. c = CHR ''/'') (rev path)))
          in if name = [] then ''/'' else name)"

text \<open>Line 91: the name of the output file of an input file.\<close>

definition outfile :: "string \<Rightarrow> string" where
  "outfile f = strings_TrimSuffix (filepath_Base f) (filepath_Ext f) @ ''.out''"

text \<open>
  The loop of lines 90 to 103. \<^verbatim>\<open>os.Create\<close> leaves an empty file. The line
  that announces the file is logged before the log is copied to the new file.
  The results of \<^verbatim>\<open>execVectorFile\<close> are dropped; a panic is not recovered and
  ends the loop. \<^verbatim>\<open>Close\<close> of the output file has no effect on the lines.
\<close>

fun files_loop ::
  "exec_env \<Rightarrow> string \<Rightarrow> string list \<Rightarrow> exec_state \<Rightarrow> error option outcome \<times> exec_state" where
  "files_loop X outdir [] s = (Returns None, s)"
| "files_loop X outdir (f # fs) s =
    (let outpath = Join X outdir (outfile f) in
     case os_Create_err X outpath of
       Some err \<Rightarrow> (Returns (Some (Errorf ''failed to create file'' (Some err))), s)
     | None \<Rightarrow>
         let s1 = s\<lparr>outfiles := (outfiles s)(outpath \<mapsto> [])\<rparr>;
             s2 = log_Println (Processing f outpath) s1;
             s3 = s2\<lparr>log_output := Some outpath\<rparr>
         in (case execVectorFile X \<lparr>failed = False\<rparr> f s3 of
              (Panics p, _, s4) \<Rightarrow> (Panics p, s4)
            | (Returns _, _, s4) \<Rightarrow> files_loop X outdir fs (s4\<lparr>log_output := None\<rparr>)))"

definition execVectorDir ::
  "exec_env \<Rightarrow> string \<Rightarrow> string \<Rightarrow> exec_state \<Rightarrow> error option outcome \<times> exec_state" where
  "execVectorDir X path outdir s =
    (case filepath_Glob X (Join X path ''*'') of
      Inl err \<Rightarrow> (Returns (Some (Errorf ''failed to glob input directory'' (Some err))), s)
    | Inr files \<Rightarrow> files_loop X outdir files s)"

section \<open>extern/sector-storage/dispatch.go\<close>

datatype CallID = CallID (Sector_Miner: nat) (Sector_Number: nat) (call_ID: string)

record SealPreCommitResp =
  ErrCode :: int
  resp_CallID :: CallID
  CommR :: bytes
  CommD :: bytes

record SectorCids =
  Unsealed :: cid
  Sealed :: cid

text \<open>\<^verbatim>\<open>storage.SectorCids{}\<close>: both fields hold the zero value.\<close>

definition SectorCids_zero :: SectorCids where
  "SectorCids_zero = \<lparr>Unsealed = Undef, Sealed = Undef\<rparr>"

text \<open>
  \<^verbatim>\<open>GetCids\<close>. The two converters of the package \<^verbatim>\<open>commcid\<close> are parameters;
  each returns the Go pair of a cid and an error. The second failure branch
  returns \<^verbatim>\<open>errCommrSize\<close>, as the source does.
\<close>

definition GetCids ::
  "(bytes \<Rightarrow> cid \<times> error option) \<Rightarrow> (bytes \<Rightarrow> cid \<times> error option) \<Rightarrow>
   SealPreCommitResp \<Rightarrow> SectorCids \<times> error option" where
  "GetCids ReplicaCommitmentV1ToCID DataCommitmentV1ToCID resp =
    (case ReplicaCommitmentV1ToCID (CommR resp) of (commR, errCommrSize) \<Rightarrow>
      if errCommrSize \<noteq> None then (SectorCids_zero, errCommrSize)
      else (case DataCommitmentV1ToCID (CommD resp) of (commD, errCommdSize) \<Rightarrow>
        if errCommdSize \<noteq> None then (SectorCids_zero, errCommrSize)
        else (\<lparr>Unsealed = commD, Sealed = commR\<rparr>, None)))"

text \<open>
  A converter in the style of \<^verbatim>\<open>commcid\<close>, which accepts 32-byte commitments only;
  used to run \<open>GetCids\<close> on concrete responses.
\<close>

definition ex_ToCID :: "bytes \<Rightarrow> cid \<times> error option" where
  "ex_ToCID b =
    (if length b = 32 then (Cid b, None) else (Undef, Some (External ''incorrect hash length'')))"

definition ex_resp :: SealPreCommitResp where
  "ex_resp = \<lparr>ErrCode = 0, resp_CallID = CallID 1000 7 ''call'', CommR = replicate 32 1, CommD = [2, 3]\<rparr>"

section \<open>Notions used in the statements\<close>

text \<open>
  A list of tipsets in which each one is followed by the tipset that the node
  returns for its parents: a stretch of the parent chain, as the walk finds it.
\<close>

fun linked :: "env \<Rightarrow> TipSet list \<Rightarrow> bool" where
  "linked E (t # u # ts) = (ChainGetTipSet E (Parents t) = Inr u \<and> linked E (u # ts))"
| "linked E _ = True"

text \<open>
  A line that announces a file of the batch, and a file whose processing does
  not meet a nil pointer: it cannot be opened, it cannot be decoded, or it
  decodes to a vector with meta and preconditions.
\<close>

fun is_Processing :: "log_line \<Rightarrow> bool" where
  "is_Processing (Processing _ _) = True"
| "is_Processing _ = False"

definition decodes_without_nil :: "exec_env \<Rightarrow> string \<Rightarrow> bool" where
  "decodes_without_nil X f =
    (case os_Open X f of
      Inl _ \<Rightarrow> True
    | Inr content \<Rightarrow>
        (case json_Decode X content of
          Inl _ \<Rightarrow> True
        | Inr tv \<Rightarrow> Meta tv \<noteq> None \<and> Pre tv \<noteq> None))"

text \<open>
  What a replay step keeps of the state: the sink of the log, the files
  announced so far, and the set of output files when the sink is one of them.
\<close>

definition keeps :: "exec_state \<Rightarrow> exec_state \<Rightarrow> bool" where
  "keeps s s' \<longleftrightarrow>
    log_output s' = log_output s \<and>
    filter is_Processing (stderr s') = filter is_Processing (stderr s) \<and>
    (\<forall>p. log_output s = Some p \<longrightarrow> p \<in> dom (outfiles s) \<longrightarrow>
       dom (outfiles s') = dom (outfiles s))"

section \<open>A concrete node\<close>

text \<open>
  A chain of two tipsets, \<open>tsA\<close> at height 5 and its child \<open>tsB\<close> at height 6;
  the parents of \<open>tsA\<close> are unknown to the node. Every tipset has one block with
  one BLS and one secp message, and executes to two results.
\<close>

definition ex_block :: "8 word \<Rightarrow> BlockHeader" where
  "ex_block n = \<lparr>Cid_of = Cid [n], Miner = ''f01000'', WinCount = 1, ParentBaseFee = Some 100\<rparr>"

definition tsA :: TipSet where
  "tsA = \<lparr>Key = [Cid [5]], Height = 5, Parents = [Cid [4]], ParentState = Cid [105],
          Blocks = [ex_block 5]\<rparr>"

definition tsB :: TipSet where
  "tsB = \<lparr>Key = [Cid [6]], Height = 6, Parents = [Cid [5]], ParentState = Cid [106],
          Blocks = [ex_block 6]\<rparr>"

text \<open>A tipset that is not on the chain of \<open>tsB\<close>.\<close>

definition tsX :: TipSet where
  "tsX = \<lparr>Key = [Cid [9]], Height = 3, Parents = [Cid [8]], ParentState = Cid [109],
          Blocks = [ex_block 9]\<rparr>"

definition ex_result :: ExecuteTipsetResult where
  "ex_result = \<lparr>ReceiptsRoot = Cid [200], PostStateRoot = Cid [201],
     AppliedResults = [\<lparr>ret_ExitCode = 0, ret_Return = [], ret_GasUsed = 10\<rparr>,
                       \<lparr>ret_ExitCode = 1, ret_Return = [7], ret_GasUsed = 20\<rparr>]\<rparr>"

definition ex_env :: env where
  "ex_env = \<lparr>
    ParseTipSetRef = (\<lambda>s. if s = ''@5'' then Inr tsA else if s = ''@6'' then Inr tsB
                            else Inl (External ''no such tipset'')),
    ChainGetTipSet = (\<lambda>k. if k = [Cid [5]] then Inr tsA else Inl (External ''no such tipset'')),
    ChainGetBlockMessages = (\<lambda>c. Inr \<lparr>BlsMessages = [Message 1],
      SecpkMessages = [\<lparr>Message_of = Message 2, Signature = []\<rparr>], Cids = []\<rparr>),
    StateNetworkVersion = (\<lambda>k. Inr 9),
    Version = Inr ''1.0'',
    StateNetworkName = Inr ''testnet'',
    Serialize = (\<lambda>m. case m of Message n \<Rightarrow> Inr [of_nat n]),
    ExecuteTipset = (\<lambda>p. Inr ex_result),
    engine_reads = (\<lambda>p. [Preroot p, Cid [50], Preroot p]),
    Recorded = (\<lambda>p. []),
    is_TracingBlockstore = True,
    WriteCARIncluding = (\<lambda>allow roots. (map (\<lambda>c. if c \<in> allow then 1 else 0) roots, None)),
    deflate = (\<lambda>b. b),
    gzip_trailer = [255],
    Flush_err = None,
    Close_err = None,
    GetProtocolCodename = (\<lambda>h. ''genesis''),
    TipSetKey_String = (\<lambda>k. ''key''),
    SelectorMinProtocolVersion = ''min_protocol_version'',
    ClassTipset = ''tipset'',
    writeVector_err = (\<lambda>v p. None),
    os_Stat = (\<lambda>p. NotExist),
    os_MkdirAll_err = (\<lambda>p. None),
    filepath_Join = (\<lambda>d n. d @ ''/'' @ n)\<rparr>"

text \<open>The vector that this node assembles for a tipset of the chain.\<close>

definition ex_vector :: "TipSet \<Rightarrow> TestVector" where
  "ex_vector ts =
    \<lparr>Class = ''tipset'',
     Meta = Some \<lparr>ID = ''@'' @ ChainEpoch_String (Height ts),
       Gen = [\<lparr>Source = ''network:testnet'', gen_Version = []\<rparr>,
              \<lparr>Source = ''tipset:key'', gen_Version = []\<rparr>,
              \<lparr>Source = ''github.com/filecoin-project/lotus'', gen_Version = ''1.0''\<rparr>]\<rparr>,
     Selector = [(''min_protocol_version'', ''genesis'')],
     Randomness = [],
     CAR = [1, 0, 255],
     Pre = Some \<lparr>Variants = [\<lparr>variant_ID = ''genesis'', Epoch = Height ts, NetworkVersion = 9\<rparr>],
       pre_BaseFee = Some 100,
       pre_StateTree = Some \<lparr>RootCID = ParentState ts\<rparr>\<rparr>,
     ApplyTipsets = [\<lparr>BaseFee = 100, tipset_Blocks =
       [\<lparr>MinerAddr = ''f01000'', blk_WinCount = 1, Messages = [[1], [2]]\<rparr>]\<rparr>],
     Post = Some \<lparr>post_StateTree = Some \<lparr>RootCID = Cid [201]\<rparr>,
       ReceiptsRoots = [Cid [200]],
       Receipts = [\<lparr>ExitCode = 0, ReturnValue = [], GasUsed = 10\<rparr>,
                   \<lparr>ExitCode = 1, ReturnValue = [7], GasUsed = 20\<rparr>]\<rparr>\<rparr>"

definition fs0 :: fsys where
  "fs0 = \<lparr>vectors = [], dirs = []\<rparr>"


section \<open>A concrete replay\<close>

text \<open>
  Vectors with meta and preconditions, and the vector that decoding the JSON
  object without keys gives: every pointer is nil.
\<close>

definition ex_variant :: "string \<Rightarrow> Variant" where
  "ex_variant n = \<lparr>variant_ID = n, Epoch = 5, NetworkVersion = 9\<rparr>"

definition ex_tv :: "string \<Rightarrow> Variant list \<Rightarrow> TestVector" where
  "ex_tv c vs =
    \<lparr>Class = c, Meta = Some \<lparr>ID = ''v1'', Gen = []\<rparr>, Selector = [], Randomness = [], CAR = [],
     Pre = Some \<lparr>Variants = vs, pre_BaseFee = None, pre_StateTree = None\<rparr>,
     ApplyTipsets = [], Post = None\<rparr>"

definition bare_tv :: TestVector where
  "bare_tv = \<lparr>Class = [], Meta = None, Selector = [], Randomness = [], CAR = [],
     Pre = None, ApplyTipsets = [], Post = None\<rparr>"

text \<open>
  The message path fails on the variant \<^verbatim>\<open>bad\<close>. The directory \<^verbatim>\<open>in\<close> holds
  three files, of which \<^verbatim>\<open>b.json\<close> is malformed; the directory \<^verbatim>\<open>bare\<close> holds
  the object without keys and a good vector.
\<close>

definition ex_exec_env :: exec_env where
  "ex_exec_env = \<lparr>
    ExecuteMessageVector = (\<lambda>r tv v.
      if variant_ID v = ''bad''
      then ((Some (External ''mismatch''), [''root'']), r\<lparr>failed := True\<rparr>, [''state root mismatch''])
      else ((None, []), r, [])),
    ExecuteTipsetVector = (\<lambda>r tv v. ((None, []), r, [])),
    filepath_Glob = (\<lambda>p. if p = ''in/*'' then Inr [''in/a.json'', ''in/b.json'', ''in/c.json'']
                         else if p = ''bare/*'' then Inr [''bare/e.json'', ''bare/c.json'']
                         else Inr []),
    os_Create_err = (\<lambda>p. None),
    os_Open = (\<lambda>p. if p = ''in/a.json'' then Inr [1]
                    else if p = ''in/b.json'' then Inr [2]
                    else if p = ''in/c.json'' \<or> p = ''bare/c.json'' then Inr [3]
                    else if p = ''bare/e.json'' then Inr [4]
                    else Inl (External ''no such file'')),
    json_Decode = (\<lambda>b. if b = [1] then Inr (ex_tv ''message'' [ex_variant ''bad'', ex_variant ''good''])
                        else if b = [3] then Inr (ex_tv ''tipset'' [ex_variant ''good''])
                        else if b = [4] then Inr bare_tv
                        else Inl (External ''invalid character'')),
    Join = (\<lambda>d n. d @ ''/'' @ n)\<rparr>"

definition ex_state :: exec_state where
  "ex_state = \<lparr>log_output = None, stderr = [], outfiles = Map.empty, calls = []\<rparr>"

definition ex_reporter :: Reporter where
  "ex_reporter = \<lparr>failed = False\<rparr>"

section \<open>Lemmas on the extraction\<close>

lemma fold_tbs_Get:
  "tracing tbs \<Longrightarrow> fold tbs_Get cs tbs = tbs\<lparr>traced := traced tbs \<union> set cs\<rparr>"
  by (induction cs arbitrary: tbs) (auto simp: tbs_Get_def)

lemma traced_set:
  "fst (FinishTracing (fold tbs_Get cs (StartTracing tbs))) = set cs"
  by (simp add: fold_tbs_Get StartTracing_def FinishTracing_def)

lemma write_archive_None:
  assumes "write_archive E accessed roots = (None, gw)"
  shows "\<exists>car gw1. WriteCARIncluding E accessed roots = (car, None) \<and>
     gzip_Flush E (gzip_Write car (gzip_NewWriter [])) = (None, gw1) \<and>
     gzip_Close E gw1 = (None, gw) \<and>
     out gw = deflate E car @ deflate E [] @ gzip_trailer E \<and> pending gw = [] \<and> closed gw"
  using assms
  by (auto simp: write_archive_def Let_def gzip_Flush_def gzip_Close_def gzip_Write_def
      gzip_NewWriter_def split: prod.splits if_splits option.splits)

text \<open>What is known of a vector that \<open>assemble_vector\<close> returns.\<close>

lemma assemble_vector_Inr:
  assumes "assemble_vector E ts = Inr v"
  shows "\<exists>params result gw var pre post.
    ExecuteTipset E params = Inr result \<and>
    write_archive E (set (engine_reads E params)) [ParentState ts, PostStateRoot result] = (None, gw) \<and>
    Preroot params = ParentState ts \<and> ExecEpoch params = Height ts \<and>
    ParentEpoch params = Height ts - 1 \<and>
    CAR v = out gw \<and>
    ApplyTipsets v = [Tipset params] \<and>
    Pre v = Some pre \<and> Variants pre = [var] \<and> Epoch var = Height ts \<and>
    pre_StateTree pre = Some \<lparr>RootCID = ParentState ts\<rparr> \<and>
    Post v = Some post \<and> post_StateTree post = Some \<lparr>RootCID = PostStateRoot result\<rparr> \<and>
    Receipts post = receipts_of (AppliedResults result)"
proof -
  let ?tbs = "StartTracing \<lparr>tracing = False, traced = {}\<rparr>"
  have tr: "FinishTracing (fold tbs_Get cs ?tbs) = (a, b) \<Longrightarrow> a = set cs" for a b cs
    using traced_set [of cs "\<lparr>tracing = False, traced = {}\<rparr>"] by simp
  show ?thesis
    using assms
    apply (clarsimp simp: assemble_vector_def Let_def
        split: sum.splits list.splits option.splits if_splits prod.splits)
    apply (drule tr)
    apply (intro exI conjI)
                 apply assumption
                apply simp
               apply simp_all
    done
qed

lemma extractTipset_ok:
  "assemble_vector E ts = Inr v \<Longrightarrow> writeVector_err E v p = None \<Longrightarrow>
   extractTipset E ts p fs = (Returns None, fs\<lparr>vectors := vectors fs @ [(p, v)]\<rparr>)"
  by (simp add: extractTipset_def writeVector_def)

text \<open>A call of \<open>extractTipset\<close> persists one vector, the assembled one, or nothing.\<close>

lemma extractTipset_cases:
  assumes "extractTipset E ts p fs = (r, fs')"
  shows "(fs' = fs \<and> r \<noteq> Returns None) \<or>
    (\<exists>v. assemble_vector E ts = Inr v \<and> writeVector_err E v p = None \<and> r = Returns None \<and>
         fs' = fs\<lparr>vectors := vectors fs @ [(p, v)]\<rparr>)"
proof (cases "assemble_vector E ts")
  case (Inl early)
  have "early \<noteq> Returns None"
    using Inl
    by (auto simp: assemble_vector_def Let_def
        split: sum.splits list.splits option.splits if_splits prod.splits)
  then show ?thesis using assms Inl by (auto simp: extractTipset_def)
next
  case (Inr v)
  then show ?thesis
    using assms by (auto simp: extractTipset_def writeVector_def split: option.splits)
qed

text \<open>
  The walk along a stretch of the parent chain that ends in \<^verbatim>\<open>left\<close>: every
  tipset before \<^verbatim>\<open>left\<close> is extracted to \<^verbatim>\<open>epoch-<height>\<close> in the directory,
  in the order of the chain, and the walk ends with the extraction of \<^verbatim>\<open>left\<close>
  to \<^verbatim>\<open>epoch-<height>.json\<close>.
\<close>

lemma walk_reaches_left:
  assumes "linked E (map fst tvs @ [l])"
    and "\<forall>(t, v) \<in> set tvs. Key t \<noteq> Key left \<and> assemble_vector E t = Inr v \<and>
           writeVector_err E v (filepath_Join E dir (''epoch-'' @ ChainEpoch_String (Height t))) = None"
    and "Key l = Key left"
  shows "extractTipsetRange E left (hd (map fst tvs @ [l])) dir fs =
    Some (extractTipset E l
      (filepath_Join E dir (''epoch-'' @ ChainEpoch_String (Height l) @ ''.json''))
      (fs\<lparr>vectors := vectors fs @
         map (\<lambda>(t, v). (filepath_Join E dir (''epoch-'' @ ChainEpoch_String (Height t)), v)) tvs\<rparr>))"
  using assms
proof (induction tvs arbitrary: fs)
  case Nil
  then show ?case by (subst extractTipsetRange.simps) simp
next
  case (Cons a tvs)
  obtain t v where a: "a = (t, v)" by (cases a)
  let ?p = "filepath_Join E dir (''epoch-'' @ ChainEpoch_String (Height t))"
  have step: "ChainGetTipSet E (Parents t) = Inr (hd (map fst tvs @ [l]))"
    using Cons.prems(1) a by (cases tvs) auto
  have rest: "linked E (map fst tvs @ [l])"
    using Cons.prems(1) a by (cases tvs) auto
  have ext: "extractTipset E t ?p fs = (Returns None, fs\<lparr>vectors := vectors fs @ [(?p, v)]\<rparr>)"
    using Cons.prems(2) a by (intro extractTipset_ok) auto
  have IH: "extractTipsetRange E left (hd (map fst tvs @ [l])) dir
      (fs\<lparr>vectors := vectors fs @ [(?p, v)]\<rparr>) =
     Some (extractTipset E l
      (filepath_Join E dir (''epoch-'' @ ChainEpoch_String (Height l) @ ''.json''))
      (fs\<lparr>vectors := vectors fs @ [(?p, v)] @
         map (\<lambda>(t, v). (filepath_Join E dir (''epoch-'' @ ChainEpoch_String (Height t)), v)) tvs\<rparr>))"
    using Cons.IH [OF rest _ Cons.prems(3)] Cons.prems(2) by simp
  have ne: "Key t \<noteq> Key left" using Cons.prems(2) a by simp
  show ?case
    apply (subst extractTipsetRange.simps)
    using ne ext step IH a by simp
qed

text \<open>
  On a chain whose parents are lower than their children, a stretch of the
  parent chain has strictly decreasing heights, so no tipset occurs twice.
\<close>

lemma linked_heights_decrease:
  assumes "\<forall>(t::TipSet) u. ChainGetTipSet E (Parents t) = Inr u \<longrightarrow> sint (Height u) < sint (Height t)"
    and "linked E ts"
  shows "sorted_wrt (\<lambda>a b. sint (Height b) < sint (Height a)) ts \<and> distinct ts"
  using assms(2)
proof (induction ts)
  case Nil
  then show ?case by simp
next
  case (Cons t ts)
  show ?case
  proof (cases ts)
    case Nil
    then show ?thesis by simp
  next
    case (Cons u us)
    have step: "sint (Height u) < sint (Height t)" and rest: "linked E ts"
      using Cons.prems assms(1) Cons by auto
    have ih: "sorted_wrt (\<lambda>a b. sint (Height b) < sint (Height a)) ts" "distinct ts"
      using Cons.IH [OF rest] by simp_all
    have below: "\<forall>x \<in> set ts. sint (Height x) < sint (Height t)"
      using ih(1) step Cons by (auto intro: less_trans)
    then have "t \<notin> set ts" by auto
    then show ?thesis using ih below by simp
  qed
qed

lemma assemble_ex_env:
  "assemble_vector ex_env tsA = Inr (ex_vector tsA)"
  "assemble_vector ex_env tsB = Inr (ex_vector tsB)"
  by (simp_all add: assemble_vector_def ex_env_def tsA_def tsB_def ex_block_def ex_vector_def
      ex_result_def write_archive_def gzip_Write_def gzip_NewWriter_def gzip_Flush_def
      gzip_Close_def StartTracing_def FinishTracing_def tbs_Get_def receipts_of_def Let_def)

lemma ChainEpoch_String_ex:
  "ChainEpoch_String 5 = ''5''" "ChainEpoch_String 6 = ''6''"
  by (simp_all add: ChainEpoch_String_def FormatInt_def decimal.simps digit_def)

lemma ex_env_simps:
  "filepath_Join ex_env d n = d @ ''/'' @ n"
  "writeVector_err ex_env v p = None"
  "ChainGetTipSet ex_env k = (if k = [Cid [5]] then Inr tsA else Inl (External ''no such tipset''))"
  "ParseTipSetRef ex_env s = (if s = ''@5'' then Inr tsA else if s = ''@6'' then Inr tsB
                            else Inl (External ''no such tipset''))"
  "os_Stat ex_env p = NotExist"
  "os_MkdirAll_err ex_env p = None"
  by (simp_all add: ex_env_def)

lemma ex_tipsets_simps:
  "Key tsA = [Cid [5]]" "Key tsB = [Cid [6]]" "Key tsX = [Cid [9]]"
  "Height tsA = 5" "Height tsB = 6"
  "Parents tsA = [Cid [4]]" "Parents tsB = [Cid [5]]"
  by (simp_all add: tsA_def tsB_def tsX_def)





lemma extract_ex: "extractTipset ex_env tsA ''v.json'' fs0 =
     (Returns None, \<lparr>vectors = [(''v.json'', ex_vector tsA)], dirs = []\<rparr>)"
  by (simp add: extractTipset_ok [OF assemble_ex_env(1)] ex_env_simps fs0_def)

section \<open>Properties of the extraction\<close>

text \<open>
  C1. The walk visits the parent chain from \<^verbatim>\<open>right\<close> back to \<^verbatim>\<open>left\<close> in order
  (lemma \<open>walk_reaches_left\<close>), but the files of one range do not have one
  form of name. On the chain of the concrete node, the range from \<open>tsA\<close> to
  \<open>tsB\<close> writes the vector of \<open>tsB\<close> to \<^verbatim>\<open>out/epoch-6\<close> and the vector of
  \<open>tsA\<close>, the left endpoint, to \<^verbatim>\<open>out/epoch-5.json\<close>.
\<close>

theorem range_names_differ_within_a_range:
  "extractTipsetRange ex_env tsA tsB ''out'' fs0 =
     Some (Returns None,
       \<lparr>vectors = [(''out/epoch-6'', ex_vector tsB), (''out/epoch-5.json'', ex_vector tsA)],
        dirs = []\<rparr>)"
proof -
  have l: "linked ex_env (map fst [(tsB, ex_vector tsB)] @ [tsA])"
    by (simp add: ex_env_simps ex_tipsets_simps)
  show ?thesis
    using walk_reaches_left [of ex_env "[(tsB, ex_vector tsB)]" tsA tsA "''out''" fs0, OF l]
    by (simp add: ex_env_simps ex_tipsets_simps ChainEpoch_String_ex assemble_ex_env
        extractTipset_ok [OF assemble_ex_env(1)] fs0_def)
qed




text \<open>
  C3. The archive of a persisted vector is what \<^verbatim>\<open>WriteCARIncluding\<close> wrote for
  the set of identifiers read from the blockstore during the execution of this
  tipset, with two roots: the state root before the execution and the state
  root after it, which are the roots that the vector declares in its
  preconditions and postconditions.
\<close>

theorem archive_walk_uses_traced_set_and_both_roots:
  assumes "extractTipset E ts path fs = (Returns None, fs')"
  shows "\<exists>v params result car pre post.
    vectors fs' = vectors fs @ [(path, v)] \<and>
    ExecuteTipset E params = Inr result \<and>
    Preroot params = ParentState ts \<and> ExecEpoch params = Height ts \<and>
    WriteCARIncluding E (set (engine_reads E params))
      [ParentState ts, PostStateRoot result] = (car, None) \<and>
    CAR v = deflate E car @ deflate E [] @ gzip_trailer E \<and>
    Pre v = Some pre \<and> pre_StateTree pre = Some \<lparr>RootCID = ParentState ts\<rparr> \<and>
    Post v = Some post \<and> post_StateTree post = Some \<lparr>RootCID = PostStateRoot result\<rparr>"
proof -
  from extractTipset_cases [OF assms] obtain v where
    v: "assemble_vector E ts = Inr v" and fs': "fs' = fs\<lparr>vectors := vectors fs @ [(path, v)]\<rparr>"
    by auto
  from assemble_vector_Inr [OF v] obtain params result gw pre post where
    ex: "ExecuteTipset E params = Inr result"
    and wa: "write_archive E (set (engine_reads E params))
               [ParentState ts, PostStateRoot result] = (None, gw)"
    and pr: "Preroot params = ParentState ts" "ExecEpoch params = Height ts"
    and car: "CAR v = out gw"
    and pre: "Pre v = Some pre" "pre_StateTree pre = Some \<lparr>RootCID = ParentState ts\<rparr>"
    and post: "Post v = Some post" "post_StateTree post = Some \<lparr>RootCID = PostStateRoot result\<rparr>"
    by blast
  from write_archive_None [OF wa] obtain c where
    c: "WriteCARIncluding E (set (engine_reads E params))
          [ParentState ts, PostStateRoot result] = (c, None)"
    and out: "out gw = deflate E c @ deflate E [] @ gzip_trailer E"
    by blast
  show ?thesis
    using fs' ex pr c car out pre post by auto
qed

theorem archive_walk_uses_traced_set_and_both_roots_witness:
  "extractTipset ex_env tsA ''v.json'' fs0 =
     (Returns None, \<lparr>vectors = [(''v.json'', ex_vector tsA)], dirs = []\<rparr>)
   \<and> (\<exists>v params result car pre post.
    [(''v.json'', ex_vector tsA)] = [(''v.json'', v)] \<and>
    ExecuteTipset ex_env params = Inr result \<and>
    Preroot params = ParentState tsA \<and> ExecEpoch params = Height tsA \<and>
    WriteCARIncluding ex_env (set (engine_reads ex_env params))
      [ParentState tsA, PostStateRoot result] = (car, None) \<and>
    CAR v = deflate ex_env car @ deflate ex_env [] @ gzip_trailer ex_env \<and>
    Pre v = Some pre \<and> pre_StateTree pre = Some \<lparr>RootCID = ParentState tsA\<rparr> \<and>
    Post v = Some post \<and> post_StateTree post = Some \<lparr>RootCID = PostStateRoot result\<rparr>)"
  using archive_walk_uses_traced_set_and_both_roots [OF extract_ex] extract_ex
  by (simp add: fs0_def)

text \<open>
  C4. A successful extraction of a tipset at height \<open>H\<close> persists a vector
  with one applied tipset, with one variant in its preconditions, whose epoch
  is \<open>H\<close>, and with one receipt for each result that the engine applied, in
  the order of the results, made of its exit code, return bytes and gas used.
\<close>

theorem single_tipset_vector_shape:
  assumes "extractTipset E ts path fs = (Returns None, fs')"
  shows "\<exists>v params result pre var post.
    vectors fs' = vectors fs @ [(path, v)] \<and>
    ExecuteTipset E params = Inr result \<and> ExecEpoch params = Height ts \<and>
    ApplyTipsets v = [Tipset params] \<and> length (ApplyTipsets v) = 1 \<and>
    Pre v = Some pre \<and> Variants pre = [var] \<and> Epoch var = Height ts \<and>
    Post v = Some post \<and>
    length (Receipts post) = length (AppliedResults result) \<and>
    Receipts post =
      map (\<lambda>res. \<lparr>ExitCode = ret_ExitCode res, ReturnValue = ret_Return res,
                  GasUsed = ret_GasUsed res\<rparr>) (AppliedResults result)"
proof -
  from extractTipset_cases [OF assms] obtain v where
    v: "assemble_vector E ts = Inr v" and fs': "fs' = fs\<lparr>vectors := vectors fs @ [(path, v)]\<rparr>"
    by auto
  from assemble_vector_Inr [OF v] obtain params result pre var post where
    "ExecuteTipset E params = Inr result" "ExecEpoch params = Height ts"
    "ApplyTipsets v = [Tipset params]"
    "Pre v = Some pre" "Variants pre = [var]" "Epoch var = Height ts"
    "Post v = Some post" "Receipts post = receipts_of (AppliedResults result)"
    by blast
  then show ?thesis
    using fs' by (auto simp: receipts_of_def)
qed

theorem single_tipset_vector_shape_witness:
  "extractTipset ex_env tsA ''v.json'' fs0 =
     (Returns None, \<lparr>vectors = [(''v.json'', ex_vector tsA)], dirs = []\<rparr>)
   \<and> (\<exists>v params result pre var post.
    [(''v.json'', ex_vector tsA)] = [(''v.json'', v)] \<and>
    ExecuteTipset ex_env params = Inr result \<and> ExecEpoch params = Height tsA \<and>
    ApplyTipsets v = [Tipset params] \<and> length (ApplyTipsets v) = 1 \<and>
    Pre v = Some pre \<and> Variants pre = [var] \<and> Epoch var = Height tsA \<and>
    Post v = Some post \<and>
    length (Receipts post) = length (AppliedResults result) \<and>
    Receipts post =
      map (\<lambda>res. \<lparr>ExitCode = ret_ExitCode res, ReturnValue = ret_Return res,
                  GasUsed = ret_GasUsed res\<rparr>) (AppliedResults result))"
  using single_tipset_vector_shape [OF extract_ex] extract_ex
  by (simp add: fs0_def)





section \<open>Lemmas on the replay\<close>

lemma log_Println_calls [simp]: "calls (log_Println l s) = calls s"
  by (simp add: log_Println_def split: option.splits)

lemma fold_log_Println_calls [simp]: "calls (fold log_Println ls s) = calls s"
  by (induction ls arbitrary: s) simp_all




lemma stderr_log_Println [simp]: "stderr (log_Println l s) = stderr s @ [l]"
  by (simp add: log_Println_def split: option.splits)

lemma log_output_log_Println [simp]: "log_output (log_Println l s) = log_output s"
  by (simp add: log_Println_def split: option.splits)

lemma dom_outfiles_log_Println:
  "log_output s = Some p \<Longrightarrow> p \<in> dom (outfiles s) \<Longrightarrow>
   dom (outfiles (log_Println l s)) = dom (outfiles s)"
  by (auto simp: log_Println_def split: option.splits)

text \<open>A loop over the variants keeps the sink and adds no line that announces a file.\<close>

lemma fold_Reported:
  "log_output (fold log_Println (map Reported ls) s) = log_output s \<and>
   filter is_Processing (stderr (fold log_Println (map Reported ls) s)) =
     filter is_Processing (stderr s) \<and>
   (\<forall>p. log_output s = Some p \<longrightarrow> p \<in> dom (outfiles s) \<longrightarrow>
      dom (outfiles (fold log_Println (map Reported ls) s)) = dom (outfiles s))"
proof (induction ls arbitrary: s)
  case Nil
  then show ?case by simp
next
  case (Cons a ls)
  show ?case
    using Cons [of "log_Println (Reported a) s"]
    by (auto simp: dom_outfiles_log_Println)
qed

lemma keeps_refl: "keeps s s"
  by (simp add: keeps_def)

lemma keeps_trans: "keeps s t \<Longrightarrow> keeps t u \<Longrightarrow> keeps s u"
  by (auto simp: keeps_def)

lemma keeps_log: "\<not> is_Processing l \<Longrightarrow> keeps s (log_Println l s)"
  by (auto simp: keeps_def dom_outfiles_log_Println)

lemma keeps_calls: "keeps s (s\<lparr>calls := cs\<rparr>)"
  by (simp add: keeps_def)

lemma keeps_Reported: "keeps s (fold log_Println (map Reported ls) s)"
  using fold_Reported [of ls s] by (simp add: keeps_def)

lemma variants_loop_keeps: "keeps s (snd (snd (variants_loop X tv vs res r s)))"
proof (induction vs arbitrary: res r s)
  case Nil
  then show ?case by (simp add: keeps_refl)
next
  case (Cons v vs)
  show ?case
  proof (cases "execute_variant X r tv v")
    case None
    then show ?thesis by (simp add: keeps_refl)
  next
    case (Some a)
    obtain c res' r' ls where a: "a = (c, res', r', ls)" by (rule prod_cases4)
    let ?s1 = "fold log_Println (map Reported ls) (s\<lparr>calls := calls s @ [c]\<rparr>)"
    let ?s2 = "log_Println (if failed r' then VariantFailed (variant_ID v)
                              else VariantSucceeded (variant_ID v)) ?s1"
    have "keeps s ?s1" using keeps_trans [OF keeps_calls keeps_Reported] .
    moreover have "keeps ?s1 ?s2" by (rule keeps_log) simp
    ultimately have "keeps s ?s2" by (rule keeps_trans)
    then show ?thesis
      using Some a Cons [where s = ?s2 and res = res' and r = r']
      by (auto simp: Let_def intro: keeps_trans)
  qed
qed

lemma execVectorFile_keeps:
  assumes "decodes_without_nil X f"
  shows "\<exists>res r' s'. execVectorFile X r f s = (Returns res, r', s') \<and> keeps s s'"
proof (cases "os_Open X f")
  case (Inl e)
  then show ?thesis by (simp add: execVectorFile_def keeps_refl)
next
  case (Inr content)
  show ?thesis
  proof (cases "json_Decode X content")
    case (Inl e)
    then show ?thesis using Inr by (simp add: execVectorFile_def keeps_refl)
  next
    case tv: (Inr tv)
    from assms Inr tv obtain m pre where mp: "Meta tv = Some m" "Pre tv = Some pre"
      by (auto simp: decodes_without_nil_def)
    let ?s1 = "log_Println (Executing (ID m)) s"
    obtain res r' s' where loop: "variants_loop X tv (Variants pre) (None, []) r ?s1 = (res, r', s')"
      by (rule prod_cases3)
    have "keeps ?s1 s'" using variants_loop_keeps [of ?s1 X tv "Variants pre" "(None, [])" r] loop
      by simp
    moreover have "keeps s ?s1" by (rule keeps_log) simp
    ultimately have "keeps s s'" by (rule keeps_trans [rotated])
    then show ?thesis
      using Inr tv mp loop by (simp add: execVectorFile_def executeTestVector_def Let_def)
  qed
qed

text \<open>
  Every file of the batch is announced and gets its output file, whatever
  error the other files return, when the output files can be created and no
  file decodes to a vector without meta or preconditions.
\<close>

lemma files_loop_isolates_errors:
  assumes "\<forall>f \<in> set fs. os_Create_err X (Join X outdir (outfile f)) = None \<and>
            decodes_without_nil X f"
    and "log_output s = None"
  shows "\<exists>s'. files_loop X outdir fs s = (Returns None, s') \<and>
    log_output s' = None \<and>
    filter is_Processing (stderr s') =
      filter is_Processing (stderr s) @
        map (\<lambda>f. Processing f (Join X outdir (outfile f))) fs \<and>
    dom (outfiles s') = dom (outfiles s) \<union> (\<lambda>f. Join X outdir (outfile f)) ` set fs"
  using assms
proof (induction fs arbitrary: s)
  case Nil
  then show ?case by simp
next
  case (Cons f fs)
  let ?outpath = "Join X outdir (outfile f)"
  let ?s1 = "s\<lparr>outfiles := (outfiles s)(?outpath \<mapsto> [])\<rparr>"
  let ?s2 = "log_Println (Processing f ?outpath) ?s1"
  let ?s3 = "?s2\<lparr>log_output := Some ?outpath\<rparr>"
  have cr: "os_Create_err X ?outpath = None" and dec: "decodes_without_nil X f"
    using Cons.prems(1) by simp_all
  from execVectorFile_keeps [OF dec, of "\<lparr>failed = False\<rparr>" ?s3]
  obtain res r' s4 where run: "execVectorFile X \<lparr>failed = False\<rparr> f ?s3 = (Returns res, r', s4)"
    and k: "keeps ?s3 s4" by blast
  have s2: "stderr ?s2 = stderr s @ [Processing f ?outpath]" "outfiles ?s2 = (outfiles s)(?outpath \<mapsto> [])"
    using Cons.prems(2) by (simp_all add: log_Println_def)
  have st: "filter is_Processing (stderr s4) = filter is_Processing (stderr s) @ [Processing f ?outpath]"
    using k s2 by (simp add: keeps_def)
  have dm: "dom (outfiles s4) = insert ?outpath (dom (outfiles s))"
    using k s2 by (simp add: keeps_def)
  let ?s5 = "s4\<lparr>log_output := None\<rparr>"
  from Cons.IH [of ?s5] Cons.prems(1)
  obtain s' where rest: "files_loop X outdir fs ?s5 = (Returns None, s')"
    and lo: "log_output s' = None"
    and st': "filter is_Processing (stderr s') =
      filter is_Processing (stderr ?s5) @ map (\<lambda>f. Processing f (Join X outdir (outfile f))) fs"
    and dm': "dom (outfiles s') = dom (outfiles ?s5) \<union> (\<lambda>f. Join X outdir (outfile f)) ` set fs"
    by auto
  have "files_loop X outdir (f # fs) s = (Returns None, s')"
    using cr run rest by (simp add: Let_def)
  then show ?case
    using lo st' dm' st dm by auto
qed

lemma ex_exec_env_simps:
  "ExecuteMessageVector ex_exec_env r tv v =
     (if variant_ID v = ''bad''
      then ((Some (External ''mismatch''), [''root'']), r\<lparr>failed := True\<rparr>, [''state root mismatch''])
      else ((None, []), r, []))"
  "ExecuteTipsetVector ex_exec_env r tv v = ((None, []), r, [])"
  "Join ex_exec_env d n = d @ ''/'' @ n"
  "os_Create_err ex_exec_env p = None"
  by (simp_all add: ex_exec_env_def)

lemma replay_ex_message:
  "executeTestVector ex_exec_env ex_reporter
     (ex_tv ''message'' [ex_variant ''bad'', ex_variant ''good'']) ex_state =
   (Returns (None, []), \<lparr>failed = True\<rparr>,
    \<lparr>log_output = None,
     stderr = [Executing ''v1'', Reported ''state root mismatch'', VariantFailed ''bad'',
               VariantFailed ''good''],
     outfiles = Map.empty,
     calls = [MessageVector (ex_tv ''message'' [ex_variant ''bad'', ex_variant ''good'']) (ex_variant ''bad''),
              MessageVector (ex_tv ''message'' [ex_variant ''bad'', ex_variant ''good'']) (ex_variant ''good'')]\<rparr>)"
  by (simp add: executeTestVector_def execute_variant_def ex_exec_env_simps Let_def
      log_Println_def ex_state_def ex_reporter_def ex_tv_def ex_variant_def)


lemma outfile_ex:
  "outfile ''in/a.json'' = ''a.out''" "outfile ''in/b.json'' = ''b.out''"
  "outfile ''in/c.json'' = ''c.out''" "outfile ''bare/e.json'' = ''e.out''"
  "outfile ''bare/c.json'' = ''c.out''"
  by (simp_all add: outfile_def strings_TrimSuffix_def filepath_Base_def filepath_Ext_def
      last_element_def)

text \<open>
  The scenario of three files of which one is malformed: the batch returns no
  error and every file has its output file; the one of the malformed file is
  empty.
\<close>

lemma batch_of_three_with_malformed:
  "\<exists>s'. execVectorDir ex_exec_env ''in'' ''out'' ex_state = (Returns None, s') \<and>
     dom (outfiles s') = {''out/a.out'', ''out/b.out'', ''out/c.out''} \<and>
     outfiles s' ''out/b.out'' = Some []"
  by (simp add: execVectorDir_def ex_exec_env_def outfile_ex Let_def log_Println_def
      execVectorFile_def executeTestVector_def execute_variant_def ex_tv_def ex_variant_def
      ex_state_def) blast

section \<open>Properties of the replay\<close>







section \<open>Properties of GetCids\<close>

text \<open>
  C10. When the CommR bytes convert to a replica-commitment cid and the
  conversion of the CommD bytes fails, \<open>GetCids\<close> returns the zero
  \<open>SectorCids\<close> together with a nil error: the failure of the CommD
  conversion is not reported.
\<close>

theorem GetCids_CommD_failure_nil_error:
  assumes "ReplicaCommitmentV1ToCID (CommR resp) = (commR, None)"
    and "DataCommitmentV1ToCID (CommD resp) = (commD, Some e)"
  shows "GetCids ReplicaCommitmentV1ToCID DataCommitmentV1ToCID resp = (SectorCids_zero, None)"
  using assms by (simp add: GetCids_def)

theorem GetCids_CommD_failure_nil_error_witness:
  "ex_ToCID (CommR ex_resp) = (Cid (replicate 32 1), None)
   \<and> ex_ToCID (CommD ex_resp) = (Undef, Some (External ''incorrect hash length''))
   \<and> GetCids ex_ToCID ex_ToCID ex_resp = (SectorCids_zero, None)"
proof -
  have r: "ex_ToCID (CommR ex_resp) = (Cid (replicate 32 1), None)"
    by (simp add: ex_ToCID_def ex_resp_def)
  have d: "ex_ToCID (CommD ex_resp) = (Undef, Some (External ''incorrect hash length''))"
    by (simp add: ex_ToCID_def ex_resp_def)
  show ?thesis
    using r d
      GetCids_CommD_failure_nil_error
        [of ex_ToCID ex_resp "Cid (replicate 32 1)" ex_ToCID Undef "External ''incorrect hash length''"]
    by simp
qed

end
